theory Spec2Isabelle
  imports Main "HOL-Library.AList" "HOL-Library.Sublist"
begin

unbundle bit_operations_syntax

section \<open>Data model\<close>

text \<open>
  The program is \<^verbatim>\<open>src/lambda_function.py\<close>: three document transformations built on the
  pdfrw object model (\<^verbatim>\<open>fill_pdf\<close>, \<^verbatim>\<open>set_fields_readonly\<close>, \<^verbatim>\<open>set_button_visibility\<close>) and
  the handler \<^verbatim>\<open>lambda_handler\<close> that chains them.

  A parsed JSON value, as \<^verbatim>\<open>json.loads\<close> returns it. \<^verbatim>\<open>JNull\<close> is Python's \<^verbatim>\<open>None\<close>, a
  \<^verbatim>\<open>JObj\<close> is a \<^verbatim>\<open>dict\<close> given by its items (looked up with \<open>map_of\<close>). Floating-point
  numbers are left out of the model.
\<close>

datatype json =
    JNull
  | JBool bool
  | JInt int
  | JStr string
  | JArr "json list"
  | JObj "(string \<times> json) list"

text \<open>The exceptions that the modelled code can raise.\<close>

datatype py_error =
    TypeError
  | KeyError
  | AttributeError
  | ParamValidationError
  | ClientError

text \<open>
  An annotation dictionary. The entries that the code reads or writes are fields of their
  own; every other entry is carried in \<open>annot_rest\<close>.
  \<^item> \<open>annot_Subtype\<close> is the \<^verbatim>\<open>/Subtype\<close> name, written with its slash (\<^verbatim>\<open>/Widget\<close>);
  \<^item> \<open>annot_T\<close> is the \<^verbatim>\<open>/T\<close> string as pdfrw holds it, that is with its delimiters:
    the field called \<^verbatim>\<open>name\<close> has \<^verbatim>\<open>/T = (name)\<close>, which is why the code strips the first
    and the last character;
  \<^item> \<open>annot_Ff\<close> is the field-flags entry \<^verbatim>\<open>/Ff\<close> (bit 0 is read-only);
  \<^item> \<open>annot_F\<close> is the annotation-flags entry \<^verbatim>\<open>/F\<close> (where the hidden bit lives);
  \<^item> \<open>annot_V\<close> and \<open>annot_AS\<close> are the entries \<^verbatim>\<open>/V\<close> and \<^verbatim>\<open>/AS\<close>.
\<close>

record annot =
  annot_Subtype :: "string option"
  annot_T :: "string option"
  annot_Ff :: "int option"
  annot_F :: "int option"
  annot_V :: "string option"
  annot_AS :: "string option"
  annot_rest :: "(string \<times> string) list"

text \<open>A page: its \<^verbatim>\<open>/Annots\<close> entry, absent (\<open>None\<close>) or a list, and the other entries.\<close>

record page =
  Annots :: "annot list option"
  page_rest :: "(string \<times> string) list"

text \<open>
  A dictionary of the document whose entries are kept in insertion order, each value as its
  PDF text. \<^verbatim>\<open>PdfObject('true')\<close> is the text \<^verbatim>\<open>true\<close>.
\<close>

type_synonym pdf_dict = "(string \<times> string) list"

text \<open>
  A document: \<^verbatim>\<open>pdf.pages\<close> and \<^verbatim>\<open>pdf.Root.AcroForm\<close> (absent, or a dictionary).

  Every stage reads its input file with \<^verbatim>\<open>PdfReader\<close> and writes its result with
  \<^verbatim>\<open>PdfWriter\<close>. The model takes a stage as a function from the parsed input to the
  object that is written, and takes writing followed by reading as the identity.
  Annotation objects are values here: the updates of the three stages depend only on the
  annotation itself and are idempotent, so an object that a document reaches twice gets
  the same entries either way.
\<close>

record document =
  pages :: "page list"
  AcroForm :: "pdf_dict option"

section \<open>Tests shared by the three stages\<close>

text \<open>\<^verbatim>\<open>annot['/Subtype'] == PdfName.Widget\<close>; a missing entry reads as \<^verbatim>\<open>None\<close>.\<close>

definition is_widget :: "annot \<Rightarrow> bool" where
  "is_widget a = (annot_Subtype a = Some ''/Widget'')"

text \<open>The truth value of \<^verbatim>\<open>annot.get('/T')\<close>: the entry is there and its text is not empty.\<close>

definition has_T :: "annot \<Rightarrow> bool" where
  "has_T a = (case annot_T a of None \<Rightarrow> False | Some s \<Rightarrow> s \<noteq> [])"

text \<open>
  \<^verbatim>\<open>s[1:-1]\<close> on a string: without the first and the last character, and empty when the
  string has fewer than two characters.
\<close>

definition strip_delims :: "string \<Rightarrow> string" where
  "strip_delims s = butlast (tl s)"

text \<open>\<^verbatim>\<open>key = annot['/T'][1:-1]\<close>, evaluated only behind the test \<open>has_T\<close>.\<close>

definition field_key :: "annot \<Rightarrow> string" where
  "field_key a = (case annot_T a of None \<Rightarrow> [] | Some s \<Rightarrow> strip_delims s)"

text \<open>
  The end of each stage:
  \<^verbatim>\<open>if pdf.Root.AcroForm: pdf.Root.AcroForm.update(PdfDict(NeedAppearances=PdfObject('true')))\<close>.
  The test is Python's truth value of a dictionary: an absent entry and a dictionary
  without entries both fail it.
\<close>

definition set_need_appearances :: "pdf_dict option \<Rightarrow> pdf_dict option" where
  "set_need_appearances af =
     (case af of
        None \<Rightarrow> None
      | Some d \<Rightarrow> if d \<noteq> [] then Some (AList.update ''/NeedAppearances'' ''true'' d) else Some d)"

section \<open>Field Locker: \<^verbatim>\<open>set_fields_readonly\<close>\<close>

text \<open>The body of the inner loop (source lines 26 to 32) for one annotation.\<close>

definition lock_annot :: "string list option \<Rightarrow> annot \<Rightarrow> annot" where
  "lock_annot field_names a =
     (if is_widget a \<and> has_T a then
        (let key = field_key a in
         if (case field_names of None \<Rightarrow> True | Some fs \<Rightarrow> List.member fs key) then
           (let flags = (case annot_Ff a of None \<Rightarrow> 0 | Some f \<Rightarrow> f)
            in a\<lparr>annot_Ff := Some (flags OR 1)\<rparr>)
         else a)
      else a)"

text \<open>One round of the loop over the pages (source lines 21 to 32).\<close>

definition lock_page :: "string list option \<Rightarrow> page \<Rightarrow> page" where
  "lock_page field_names p =
     (case Annots p of
        None \<Rightarrow> p
      | Some annots \<Rightarrow>
          if annots = [] then p
          else p\<lparr>Annots := Some (map (lock_annot field_names) annots)\<rparr>)"

definition set_fields_readonly :: "string list option \<Rightarrow> document \<Rightarrow> document" where
  "set_fields_readonly field_names pdf =
     pdf\<lparr>pages := map (lock_page field_names) (pages pdf),
         AcroForm := set_need_appearances (AcroForm pdf)\<rparr>"

section \<open>Form Filler: \<^verbatim>\<open>fill_pdf\<close>\<close>

text \<open>
  \<^verbatim>\<open>str(x)\<close> for a JSON value: a string is returned as it is, and for every other type of
  the model \<^verbatim>\<open>str\<close> is \<^verbatim>\<open>repr\<close>. Python's \<^verbatim>\<open>repr\<close> (quoting and escaping rules, number
  formatting) is a parameter of the model.
\<close>

fun py_str :: "(json \<Rightarrow> string) \<Rightarrow> json \<Rightarrow> string" where
  "py_str repr (JStr s) = s"
| "py_str repr v = repr v"

text \<open>The body of the inner loop (source lines 50 to 56); \<open>data\<close> is a \<^verbatim>\<open>dict\<close>.\<close>

definition fill_annot :: "(json \<Rightarrow> string) \<Rightarrow> (string \<rightharpoonup> json) \<Rightarrow> annot \<Rightarrow> annot" where
  "fill_annot repr data a =
     (if is_widget a \<and> has_T a then
        (case data (field_key a) of
           None \<Rightarrow> a
         | Some v \<Rightarrow> a\<lparr>annot_V := Some (py_str repr v), annot_AS := Some (py_str repr v)\<rparr>)
      else a)"

definition fill_page :: "(json \<Rightarrow> string) \<Rightarrow> (string \<rightharpoonup> json) \<Rightarrow> page \<Rightarrow> page" where
  "fill_page repr data p =
     (case Annots p of
        None \<Rightarrow> p
      | Some annots \<Rightarrow>
          if annots = [] then p
          else p\<lparr>Annots := Some (map (fill_annot repr data) annots)\<rparr>)"

definition fill_pdf :: "(json \<Rightarrow> string) \<Rightarrow> (string \<rightharpoonup> json) \<Rightarrow> document \<Rightarrow> document" where
  "fill_pdf repr data template =
     template\<lparr>pages := map (fill_page repr data) (pages template),
              AcroForm := set_need_appearances (AcroForm template)\<rparr>"

section \<open>Visibility Controller: \<^verbatim>\<open>set_button_visibility\<close>\<close>

text \<open>
  The handler passes \<^verbatim>\<open>body.get('visibility_map')\<close>, any JSON value or \<^verbatim>\<open>None\<close>, so the
  three operations that the stage applies to it are modelled for every JSON value.

  \<^verbatim>\<open>key in visibility_map\<close> with a string \<open>key\<close>: a key test on a dictionary, an element
  test on a list, a substring test on a string, and a \<^verbatim>\<open>TypeError\<close> on \<^verbatim>\<open>None\<close>, a
  boolean or a number.
\<close>

fun py_contains :: "json \<Rightarrow> string \<Rightarrow> py_error + bool" where
  "py_contains (JObj kvs) key = Inr (map_of kvs key \<noteq> None)"
| "py_contains (JArr xs) key = Inr (List.member xs (JStr key))"
| "py_contains (JStr s) key = Inr (sublist key s)"
| "py_contains JNull key = Inl TypeError"
| "py_contains (JBool b) key = Inl TypeError"
| "py_contains (JInt i) key = Inl TypeError"

text \<open>\<^verbatim>\<open>visibility_map[key]\<close> with a string \<open>key\<close>.\<close>

fun py_getitem :: "json \<Rightarrow> string \<Rightarrow> py_error + json" where
  "py_getitem (JObj kvs) key = (case map_of kvs key of None \<Rightarrow> Inl KeyError | Some v \<Rightarrow> Inr v)"
| "py_getitem v key = Inl TypeError"

text \<open>The truth value of a JSON value, as \<^verbatim>\<open>if visibility_map[key]:\<close> takes it.\<close>

fun py_truthy :: "json \<Rightarrow> bool" where
  "py_truthy JNull = False"
| "py_truthy (JBool b) = b"
| "py_truthy (JInt i) = (i \<noteq> 0)"
| "py_truthy (JStr s) = (s \<noteq> [])"
| "py_truthy (JArr xs) = (xs \<noteq> [])"
| "py_truthy (JObj kvs) = (kvs \<noteq> [])"

text \<open>
  The inner loop (source lines 76 to 90): the list \<^verbatim>\<open>new_annots\<close> built from the page's
  annotations, in their order. An exception ends the whole stage.
\<close>

fun rebuild_annots :: "json \<Rightarrow> annot list \<Rightarrow> py_error + annot list" where
  "rebuild_annots visibility_map [] = Inr []"
| "rebuild_annots visibility_map (a # annots) =
     (if is_widget a \<and> has_T a then
        (case py_contains visibility_map (field_key a) of
           Inl e \<Rightarrow> Inl e
         | Inr False \<Rightarrow>
             (case rebuild_annots visibility_map annots of
                Inl e \<Rightarrow> Inl e
              | Inr new_annots \<Rightarrow> Inr (a # new_annots))
         | Inr True \<Rightarrow>
             (case py_getitem visibility_map (field_key a) of
                Inl e \<Rightarrow> Inl e
              | Inr v \<Rightarrow>
                  (case rebuild_annots visibility_map annots of
                     Inl e \<Rightarrow> Inl e
                   | Inr new_annots \<Rightarrow>
                       if py_truthy v then Inr (a\<lparr>annot_F := Some 0\<rparr> # new_annots)
                       else Inr new_annots)))
      else
        (case rebuild_annots visibility_map annots of
           Inl e \<Rightarrow> Inl e
         | Inr new_annots \<Rightarrow> Inr (a # new_annots)))"

text \<open>
  One round of the loop over the pages (source lines 71 to 97). When the rebuilt list is
  empty the code calls \<^verbatim>\<open>page.pop('/Annots', None)\<close>. The \<^verbatim>\<open>pop\<close> of a pdfrw \<^verbatim>\<open>PdfDict\<close> takes
  the key only, so the call with a default value raises a \<^verbatim>\<open>TypeError\<close> before anything is
  removed, and the exception ends the stage.
\<close>

definition visibility_page :: "json \<Rightarrow> page \<Rightarrow> py_error + page" where
  "visibility_page visibility_map p =
     (case Annots p of
        None \<Rightarrow> Inr p
      | Some annots \<Rightarrow>
          if annots = [] then Inr p
          else
            (case rebuild_annots visibility_map annots of
               Inl e \<Rightarrow> Inl e
             | Inr new_annots \<Rightarrow>
                 if new_annots \<noteq> [] then Inr (p\<lparr>Annots := Some new_annots\<rparr>)
                 else Inl TypeError))"

fun visibility_pages :: "json \<Rightarrow> page list \<Rightarrow> py_error + page list" where
  "visibility_pages visibility_map [] = Inr []"
| "visibility_pages visibility_map (p # ps) =
     (case visibility_page visibility_map p of
        Inl e \<Rightarrow> Inl e
      | Inr p' \<Rightarrow>
          (case visibility_pages visibility_map ps of
             Inl e \<Rightarrow> Inl e
           | Inr ps' \<Rightarrow> Inr (p' # ps')))"

definition set_button_visibility :: "json \<Rightarrow> document \<Rightarrow> py_error + document" where
  "set_button_visibility visibility_map pdf =
     (case visibility_pages visibility_map (pages pdf) of
        Inl e \<Rightarrow> Inl e
      | Inr ps \<Rightarrow> Inr (pdf\<lparr>pages := ps, AcroForm := set_need_appearances (AcroForm pdf)\<rparr>))"

section \<open>The handler: \<^verbatim>\<open>lambda_handler\<close>\<close>

definition BUCKET_NAME :: string where
  "BUCKET_NAME = ''2025-leagabot-1''"

definition TEMPLATE_KEY :: string where
  "TEMPLATE_KEY = ''input/test.pdf''"

text \<open>
  What the handler takes from outside the program: the objects of the bucket
  \<open>BUCKET_NAME\<close> that parse as PDF documents, by their keys (\<^verbatim>\<open>s3.download_file\<close> followed
  by \<^verbatim>\<open>PdfReader\<close>), the identifier that
  \<^verbatim>\<open>uuid.uuid4()\<close> draws, the signing function \<^verbatim>\<open>s3.generate_presigned_url\<close> for an
  object key, and Python's \<^verbatim>\<open>repr\<close>.
\<close>

record env =
  s3_objects :: "string \<rightharpoonup> document"
  uuid4 :: string
  presigned_url :: "string \<Rightarrow> string"
  py_repr :: "json \<Rightarrow> string"

text \<open>The returned dictionary; \<open>body\<close> is the value that is given to \<^verbatim>\<open>json.dumps\<close>.\<close>

record response =
  statusCode :: int
  body :: json

text \<open>\<^verbatim>\<open>body.get(key, dflt)\<close> on the parsed request body.\<close>

fun py_get :: "json \<Rightarrow> string \<Rightarrow> json \<Rightarrow> py_error + json" where
  "py_get (JObj kvs) key dflt = (case map_of kvs key of None \<Rightarrow> Inr dflt | Some v \<Rightarrow> Inr v)"
| "py_get v key dflt = Inl AttributeError"

text \<open>The parsed body as the \<open>data\<close> argument of \<open>fill_pdf\<close>.\<close>

fun as_dict :: "json \<Rightarrow> (string \<rightharpoonup> json)" where
  "as_dict (JObj kvs) = map_of kvs"
| "as_dict v = Map.empty"

text \<open>
  The handler, on the parsed request body (\<^verbatim>\<open>json.loads(event['body'])\<close>). It returns the
  response together with the object that it uploads (key and document). The download
  raises when the key is not a string or names no object; the upload and the signing are
  taken to succeed.
\<close>

definition lambda_handler :: "env \<Rightarrow> json \<Rightarrow> py_error + (response \<times> string \<times> document)" where
  "lambda_handler e request_body =
     (case py_get request_body ''template_path'' (JStr TEMPLATE_KEY) of
        Inl err \<Rightarrow> Inl err
      | Inr (JStr template_path) \<Rightarrow>
          (case s3_objects e template_path of
             None \<Rightarrow> Inl ClientError
           | Some template \<Rightarrow>
               (let filled = fill_pdf (py_repr e) (as_dict request_body) template;
                    locked = set_fields_readonly None filled
                in case py_get request_body ''visibility_map'' JNull of
                     Inl err \<Rightarrow> Inl err
                   | Inr visibility_map \<Rightarrow>
                       (case set_button_visibility visibility_map locked of
                          Inl err \<Rightarrow> Inl err
                        | Inr out \<Rightarrow>
                            (let output_key = ''output/'' @ uuid4 e @ ''.pdf'';
                                 url = presigned_url e output_key
                             in Inr (\<lparr>statusCode = 200, body = JObj [(''url'', JStr url)]\<rparr>,
                                     output_key, out)))))
      | Inr other \<Rightarrow> Inl ParamValidationError)"

section \<open>Observations and sample documents\<close>

text \<open>The annotation list of a page, empty when the page has no \<^verbatim>\<open>/Annots\<close> entry.\<close>

definition page_annots :: "page \<Rightarrow> annot list" where
  "page_annots p = (case Annots p of None \<Rightarrow> [] | Some annots \<Rightarrow> annots)"

text \<open>The annotation at position \<open>j\<close> of page \<open>i\<close>, when there is one.\<close>

definition annot_at :: "document \<Rightarrow> nat \<Rightarrow> nat \<Rightarrow> annot option" where
  "annot_at pdf i j =
     (if i < length (pages pdf) \<and> j < length (page_annots (pages pdf ! i))
      then Some (page_annots (pages pdf ! i) ! j) else None)"

text \<open>The value of \<^verbatim>\<open>/Ff\<close>, an absent entry read as 0.\<close>

definition existing_flags :: "annot \<Rightarrow> int" where
  "existing_flags a = (case annot_Ff a of None \<Rightarrow> 0 | Some f \<Rightarrow> f)"

text \<open>
  The specification's description of the Visibility Controller, for one annotation and a
  visibility map that is a dictionary: a widget whose field name is a key is kept with
  \<^verbatim>\<open>/F\<close> set to 0 when the mapped value is true and dropped when it is false; every other
  annotation is kept as it is. The result is \<open>None\<close> for a dropped annotation. The loop
  of the source, \<open>rebuild_annots\<close>, is compared with it below.
\<close>

definition spec_show_annot :: "(string \<times> json) list \<Rightarrow> annot \<Rightarrow> annot option" where
  "spec_show_annot kvs a =
     (if is_widget a \<and> has_T a then
        (case map_of kvs (field_key a) of
           None \<Rightarrow> Some a
         | Some v \<Rightarrow> if py_truthy v then Some (a\<lparr>annot_F := Some 0\<rparr>) else None)
      else Some a)"

text \<open>
  For a visibility map that is a dictionary: the page has no annotation, or the
  specification keeps at least one of them; and the same for every page of a document.
\<close>

definition page_not_emptied :: "(string \<times> json) list \<Rightarrow> page \<Rightarrow> bool" where
  "page_not_emptied kvs p =
     (page_annots p = [] \<or> List.map_filter (spec_show_annot kvs) (page_annots p) \<noteq> [])"

definition no_page_emptied :: "(string \<times> json) list \<Rightarrow> document \<Rightarrow> bool" where
  "no_page_emptied kvs pdf = list_all (page_not_emptied kvs) (pages pdf)"

text \<open>The \<^verbatim>\<open>/NeedAppearances\<close> entry of the AcroForm dictionary, when there is one.\<close>

definition need_appearances :: "document \<Rightarrow> string option" where
  "need_appearances pdf =
     (case AcroForm pdf of None \<Rightarrow> None | Some d \<Rightarrow> map_of d ''/NeedAppearances'')"

text \<open>Sample data: a named widget, a link annotation, a document of one page.\<close>

definition widget :: "string \<Rightarrow> int option \<Rightarrow> annot" where
  "widget name ff =
     \<lparr>annot_Subtype = Some ''/Widget'', annot_T = Some (''('' @ name @ '')''),
      annot_Ff = ff, annot_F = None, annot_V = None, annot_AS = None, annot_rest = []\<rparr>"

definition link_annot :: annot where
  "link_annot =
     \<lparr>annot_Subtype = Some ''/Link'', annot_T = None,
      annot_Ff = None, annot_F = Some 4, annot_V = None, annot_AS = None, annot_rest = []\<rparr>"

definition one_page :: "annot list option \<Rightarrow> pdf_dict option \<Rightarrow> document" where
  "one_page annots af = \<lparr>pages = [\<lparr>Annots = annots, page_rest = []\<rparr>], AcroForm = af\<rparr>"

definition ex_repr :: "json \<Rightarrow> string" where
  "ex_repr v = ''<repr>''"

text \<open>
  Further sample data: documents with and without an AcroForm dictionary, a widget whose
  field name is the empty string, a request environment whose bucket holds one template,
  and the scenario of a template with the widgets \<^verbatim>\<open>name\<close> and \<^verbatim>\<open>signature\<close>.
\<close>

definition ex_name_doc :: document where
  "ex_name_doc = one_page (Some [widget ''name'' None]) None"

definition ex_fill_doc :: document where
  "ex_fill_doc = one_page (Some [widget ''name'' None, widget ''date'' None, link_annot]) None"

definition ex_empty_name :: annot where
  "ex_empty_name =
     \<lparr>annot_Subtype = Some ''/Widget'', annot_T = Some ''()'',
      annot_Ff = None, annot_F = None, annot_V = None, annot_AS = None, annot_rest = []\<rparr>"

definition ex_form_doc :: document where
  "ex_form_doc = one_page (Some [widget ''name'' None]) (Some [(''/Fields'', ''[1 0 R]'')])"

definition ex_empty_form_doc :: document where
  "ex_empty_form_doc = one_page (Some [widget ''name'' None]) (Some [])"



definition ex_two_pages :: document where
  "ex_two_pages =
     \<lparr>pages = [\<lparr>Annots = Some [widget ''signature'' None], page_rest = []\<rparr>,
               \<lparr>Annots = Some [], page_rest = []\<rparr>],
      AcroForm = None\<rparr>"

definition ex_url :: "string \<Rightarrow> string" where
  "ex_url k = ''https://s3.example/'' @ k"

definition ex_env :: "string \<Rightarrow> document \<Rightarrow> env" where
  "ex_env key template =
     \<lparr>s3_objects = map_of [(key, template)], uuid4 = ''0000'',
      presigned_url = ex_url, py_repr = ex_repr\<rparr>"

definition scenario_template :: document where
  "scenario_template =
     one_page (Some [(widget ''name'' (Some 0))\<lparr>annot_F := Some 0\<rparr>,
                     (widget ''signature'' (Some 0))\<lparr>annot_F := Some 0\<rparr>])
              (Some [(''/Fields'', ''[4 0 R 5 0 R]'')])"

definition scenario_result :: document where
  "scenario_result =
     one_page (Some [(widget ''name'' (Some 1))
                       \<lparr>annot_F := Some 0, annot_V := Some ''Alice'', annot_AS := Some ''Alice''\<rparr>])
              (Some [(''/Fields'', ''[4 0 R 5 0 R]''), (''/NeedAppearances'', ''true'')])"

definition ex_reserved_template :: document where
  "ex_reserved_template =
     one_page (Some [widget ''template_path'' None, widget ''visibility_map'' None]) None"

definition ex_reserved_body :: "(string \<times> json) list" where
  "ex_reserved_body =
     [(''template_path'', JStr ''forms/a.pdf''), (''visibility_map'', JObj [(''other'', JBool True)])]"

section \<open>The stages, page by page\<close>

lemma page_annots_lock_page:
  "page_annots (lock_page fs p) = map (lock_annot fs) (page_annots p)"
  by (simp add: lock_page_def page_annots_def split: option.splits)

lemma page_annots_fill_page:
  "page_annots (fill_page repr data p) = map (fill_annot repr data) (page_annots p)"
  by (simp add: fill_page_def page_annots_def split: option.splits)

lemma annot_at_set_fields_readonly:
  "annot_at (set_fields_readonly fs pdf) i j = map_option (lock_annot fs) (annot_at pdf i j)"
  by (simp add: annot_at_def set_fields_readonly_def page_annots_lock_page)

lemma annot_at_fill_pdf:
  "annot_at (fill_pdf repr data pdf) i j = map_option (fill_annot repr data) (annot_at pdf i j)"
  by (simp add: annot_at_def fill_pdf_def page_annots_fill_page)

lemma rebuild_annots_dict:
  "rebuild_annots (JObj kvs) annots = Inr (List.map_filter (spec_show_annot kvs) annots)"
  by (induction annots) (auto simp: spec_show_annot_def split: option.splits)

lemma visibility_page_dict:
  "visibility_page (JObj kvs) p = Inr p' \<Longrightarrow>
   page_annots p' = List.map_filter (spec_show_annot kvs) (page_annots p) \<and> page_rest p' = page_rest p"
  by (auto simp: visibility_page_def page_annots_def rebuild_annots_dict split: option.splits if_splits)

lemma visibility_page_dict_returns:
  "page_not_emptied kvs p \<Longrightarrow> \<exists>p'. visibility_page (JObj kvs) p = Inr p'"
  by (auto simp: page_not_emptied_def visibility_page_def page_annots_def rebuild_annots_dict
      split: option.splits)

lemma visibility_page_dict_error:
  "visibility_page (JObj kvs) p = Inl err \<Longrightarrow> err = TypeError"
  by (auto simp: visibility_page_def rebuild_annots_dict split: option.splits if_splits)

lemma visibility_page_emptied:
  "Annots p = Some annots \<Longrightarrow> annots \<noteq> [] \<Longrightarrow> rebuild_annots vm annots = Inr [] \<Longrightarrow>
   visibility_page vm p = Inl TypeError"
  by (simp add: visibility_page_def)

lemma visibility_page_skips_empty:
  "Annots p = None \<or> Annots p = Some [] \<Longrightarrow> visibility_page vm p = Inr p"
  by (auto simp: visibility_page_def)

lemma visibility_pages_nth:
  "visibility_pages vm ps = Inr ps' \<Longrightarrow>
   length ps' = length ps \<and> (\<forall>i<length ps. visibility_page vm (ps ! i) = Inr (ps' ! i))"
proof (induction ps arbitrary: ps')
  case Nil
  then show ?case by simp
next
  case (Cons p ps)
  then show ?case
    by (auto split: sum.splits simp: nth_Cons split: nat.splits)
qed

lemma visibility_pages_dict:
  "list_all (page_not_emptied kvs) ps \<Longrightarrow> \<exists>ps'. visibility_pages (JObj kvs) ps = Inr ps'"
proof (induction ps)
  case Nil
  then show ?case by simp
next
  case (Cons p ps)
  then obtain p' where "visibility_page (JObj kvs) p = Inr p'"
    using visibility_page_dict_returns [of kvs p] by auto
  with Cons show ?case by auto
qed

lemma visibility_pages_dict_error:
  "visibility_pages (JObj kvs) ps = Inl err \<Longrightarrow> err = TypeError"
proof (induction ps)
  case Nil
  then show ?case by simp
next
  case (Cons p ps)
  then show ?case
    by (auto split: sum.splits dest: visibility_page_dict_error)
qed

lemma visibility_pages_raises:
  assumes "i < length ps" and "visibility_page vm (ps ! i) = Inl err"
  shows "\<exists>err'. visibility_pages vm ps = Inl err'"
proof (cases "visibility_pages vm ps")
  case (Inl err')
  then show ?thesis by blast
next
  case (Inr ps')
  from visibility_pages_nth [OF Inr] assms(1)
  have "visibility_page vm (ps ! i) = Inr (ps' ! i)" by blast
  with assms(2) show ?thesis by simp
qed

lemma set_button_visibility_nth:
  "set_button_visibility vm pdf = Inr out \<Longrightarrow>
   length (pages out) = length (pages pdf) \<and>
   (\<forall>i<length (pages pdf). visibility_page vm (pages pdf ! i) = Inr (pages out ! i)) \<and>
   AcroForm out = set_need_appearances (AcroForm pdf)"
  using visibility_pages_nth [of vm "pages pdf"]
  by (auto simp: set_button_visibility_def split: sum.splits)

lemma set_button_visibility_dict:
  "no_page_emptied kvs pdf \<Longrightarrow> \<exists>out. set_button_visibility (JObj kvs) pdf = Inr out"
  using visibility_pages_dict [of kvs "pages pdf"]
  by (auto simp: set_button_visibility_def no_page_emptied_def)

lemma set_button_visibility_raises:
  assumes "i < length (pages pdf)" and "visibility_page vm (pages pdf ! i) = Inl err"
  shows "\<exists>err'. set_button_visibility vm pdf = Inl err'"
  using visibility_pages_raises [OF assms] by (auto simp: set_button_visibility_def)

lemma set_button_visibility_dict_error:
  "set_button_visibility (JObj kvs) pdf = Inl err \<Longrightarrow> err = TypeError"
  by (auto simp: set_button_visibility_def split: sum.splits dest: visibility_pages_dict_error)

lemma set_button_visibility_dict_annots:
  assumes "set_button_visibility (JObj kvs) pdf = Inr out" and "i < length (pages pdf)"
  shows "page_annots (pages out ! i) = List.map_filter (spec_show_annot kvs) (page_annots (pages pdf ! i))"
proof -
  have "visibility_page (JObj kvs) (pages pdf ! i) = Inr (pages out ! i)"
    using set_button_visibility_nth [OF assms(1)] assms(2) by simp
  then show ?thesis
    using visibility_page_dict by blast
qed

lemma or_one_bits: "bit (f OR (1::int)) n \<longleftrightarrow> n = 0 \<or> bit f n"
  by (auto simp: bit_or_iff bit_1_iff)

lemma set_map_filter_show:
  "b \<in> set (List.map_filter (spec_show_annot kvs) annots) \<longleftrightarrow>
   (\<exists>a\<in>set annots. spec_show_annot kvs a = Some b)"
  by (induction annots) (auto split: option.splits)

lemma lock_annot_keeps_name:
  "is_widget (lock_annot fs a) = is_widget a \<and> has_T (lock_annot fs a) = has_T a \<and>
   field_key (lock_annot fs a) = field_key a"
  by (simp add: lock_annot_def is_widget_def has_T_def field_key_def Let_def)

text \<open>
  The definitions that a computation on a sample document unfolds.
\<close>

lemmas eval_defs =
  one_page_def widget_def link_annot_def is_widget_def has_T_def field_key_def strip_delims_def
  fill_pdf_def fill_page_def fill_annot_def set_fields_readonly_def lock_page_def lock_annot_def
  set_button_visibility_def visibility_page_def set_need_appearances_def
  annot_at_def page_annots_def

lemma lock_annot_named:
  "is_widget a \<Longrightarrow> has_T a \<Longrightarrow>
   lock_annot None a = a\<lparr>annot_Ff := Some (existing_flags a OR 1)\<rparr>"
  by (simp add: lock_annot_def existing_flags_def)

lemma fill_annot_matched:
  "is_widget a \<Longrightarrow> has_T a \<Longrightarrow> data (field_key a) = Some v \<Longrightarrow>
   fill_annot repr data a = a\<lparr>annot_V := Some (py_str repr v), annot_AS := Some (py_str repr v)\<rparr>"
  by (simp add: fill_annot_def)

lemma fill_annot_other:
  "\<not> (is_widget a \<and> has_T a \<and> field_key a \<in> dom data) \<Longrightarrow> fill_annot repr data a = a"
  by (auto simp: fill_annot_def split: option.splits)

lemma fill_annot_keeps_name:
  "is_widget (fill_annot repr data a) = is_widget a \<and> has_T (fill_annot repr data a) = has_T a \<and>
   field_key (fill_annot repr data a) = field_key a"
  by (simp add: fill_annot_def is_widget_def has_T_def field_key_def split: option.splits)

lemma fill_annot_empty: "fill_annot repr Map.empty a = a"
  by (simp add: fill_annot_def)

lemma fill_page_empty: "fill_page repr Map.empty p = p"
proof -
  have "map (fill_annot repr Map.empty) xs = xs" for xs
    by (induction xs) (simp_all add: fill_annot_empty)
  then show ?thesis
    by (simp add: fill_page_def split: option.splits)
qed

lemma map_of_set_need_appearances:
  "set_need_appearances af = Some d' \<Longrightarrow>
   \<exists>d. af = Some d \<and> (\<forall>k. k \<noteq> ''/NeedAppearances'' \<longrightarrow> map_of d' k = map_of d k)"
  by (auto simp: set_need_appearances_def update_conv' split: option.splits if_splits)

lemma need_appearances_set:
  "af = Some d \<Longrightarrow> d \<noteq> [] \<Longrightarrow>
   (case set_need_appearances af of None \<Rightarrow> None | Some d' \<Rightarrow> map_of d' ''/NeedAppearances'') = Some ''true''"
  by (simp add: set_need_appearances_def update_conv')

lemma set_need_appearances_skip:
  "af = None \<or> af = Some [] \<Longrightarrow> set_need_appearances af = af"
  by (auto simp: set_need_appearances_def)

lemma show_annot_Some_named:
  assumes "spec_show_annot kvs a = Some b" and "is_widget b" and "has_T b"
  shows "is_widget a \<and> has_T a \<and> field_key a = field_key b \<and>
         (field_key a \<in> dom (map_of kvs) \<longrightarrow>
            b = a\<lparr>annot_F := Some 0\<rparr> \<and> (\<exists>v. map_of kvs (field_key a) = Some v \<and> py_truthy v))"
  using assms
  by (auto simp: spec_show_annot_def is_widget_def has_T_def field_key_def split: if_splits option.splits)

lemma show_annot_shown:
  "is_widget a \<Longrightarrow> has_T a \<Longrightarrow> map_of kvs (field_key a) = Some v \<Longrightarrow> py_truthy v \<Longrightarrow>
   spec_show_annot kvs a = Some (a\<lparr>annot_F := Some 0\<rparr>)"
  by (simp add: spec_show_annot_def)



section \<open>Field Locker: the read-only bit\<close>

text \<open>
  Claim C3. For every widget annotation that passes the test on \<^verbatim>\<open>/T\<close> (every widget
  with a non-empty field name does), locking with \<^verbatim>\<open>fields = None\<close> sets \<^verbatim>\<open>/Ff\<close> to the
  existing value, 0 when absent, bitwise-or 1, and changes nothing else in the annotation:
  bit 0 is set and every other bit is as before. Flags 4 become 5.
\<close>

theorem lock_all_sets_readonly_bit:
  assumes "annot_at pdf i j = Some a" and "is_widget a" and "has_T a"
  shows "annot_at (set_fields_readonly None pdf) i j =
           Some (a\<lparr>annot_Ff := Some (existing_flags a OR 1)\<rparr>) \<and>
         (\<forall>n. bit (existing_flags a OR 1) n \<longleftrightarrow> n = 0 \<or> bit (existing_flags a) n) \<and>
         (annot_Ff a = Some 4 \<longrightarrow>
            annot_at (set_fields_readonly None pdf) i j = Some (a\<lparr>annot_Ff := Some 5\<rparr>))"
proof -
  have "lock_annot None a = a\<lparr>annot_Ff := Some (existing_flags a OR 1)\<rparr>"
    using assms(2,3) by (simp add: lock_annot_def existing_flags_def)
  then have 1: "annot_at (set_fields_readonly None pdf) i j =
      Some (a\<lparr>annot_Ff := Some (existing_flags a OR 1)\<rparr>)"
    using assms(1) by (simp add: annot_at_set_fields_readonly)
  have 2: "\<forall>n. bit (existing_flags a OR 1) n \<longleftrightarrow> n = 0 \<or> bit (existing_flags a) n"
    by (simp add: or_one_bits)
  have 3: "annot_Ff a = Some 4 \<longrightarrow>
      annot_at (set_fields_readonly None pdf) i j = Some (a\<lparr>annot_Ff := Some 5\<rparr>)"
    using 1 by (simp add: existing_flags_def)
  from 1 2 3 show ?thesis by blast
qed

theorem lock_all_sets_readonly_bit_witness:
  "annot_at (one_page (Some [widget ''name'' (Some 4)]) None) 0 0 = Some (widget ''name'' (Some 4)) \<and>
   is_widget (widget ''name'' (Some 4)) \<and> has_T (widget ''name'' (Some 4)) \<and>
   annot_at (set_fields_readonly None (one_page (Some [widget ''name'' (Some 4)]) None)) 0 0 =
     Some (widget ''name'' (Some 5))"
proof -
  have h1: "annot_at (one_page (Some [widget ''name'' (Some 4)]) None) 0 0 = Some (widget ''name'' (Some 4))"
    by (simp add: annot_at_def one_page_def page_annots_def)
  have h2: "is_widget (widget ''name'' (Some 4))"
    by (simp add: is_widget_def widget_def)
  have h3: "has_T (widget ''name'' (Some 4))"
    by (simp add: has_T_def widget_def)
  have h4: "annot_Ff (widget ''name'' (Some 4)) = Some 4"
    by (simp add: widget_def)
  have h5: "(widget ''name'' (Some 4))\<lparr>annot_Ff := Some 5\<rparr> = widget ''name'' (Some 5)"
    by (simp add: widget_def)
  have "annot_at (set_fields_readonly None (one_page (Some [widget ''name'' (Some 4)]) None)) 0 0 =
      Some ((widget ''name'' (Some 4))\<lparr>annot_Ff := Some 5\<rparr>)"
    using lock_all_sets_readonly_bit [OF h1 h2 h3] h4 by blast
  with h1 h2 h3 h5 show ?thesis by simp
qed

section \<open>Form Filler: values of the matched widgets\<close>

text \<open>
  Claim C5, as amended. The code tests the stored \<^verbatim>\<open>/T\<close> string, delimiters included, so
  the test also holds for a widget whose field name is the empty string (\<^verbatim>\<open>/T ()\<close>).
  For every position of the template: a widget that passes the test on \<^verbatim>\<open>/T\<close> and whose
  field name is a key of the data gets \<^verbatim>\<open>/V\<close> and \<^verbatim>\<open>/AS\<close> equal to the string form of the
  value, and nothing else of it changes; every other annotation (a widget whose name is not
  a key, a widget that fails the test on \<^verbatim>\<open>/T\<close>, an annotation that is no widget) is
  unchanged; a position without annotation stays without one and the number of pages is
  the same. \<open>fill_pdf\<close> has no raising branch, so a field name that occurs only in the
  template or only in the data raises nothing.
\<close>

theorem fill_sets_value_of_matched_widgets:
  "length (pages (fill_pdf repr data template)) = length (pages template) \<and>
   (annot_at template i j = None \<longrightarrow> annot_at (fill_pdf repr data template) i j = None) \<and>
   (annot_at template i j = Some a \<and> is_widget a \<and> has_T a \<and> data (field_key a) = Some v \<longrightarrow>
      annot_at (fill_pdf repr data template) i j =
        Some (a\<lparr>annot_V := Some (py_str repr v), annot_AS := Some (py_str repr v)\<rparr>)) \<and>
   (annot_at template i j = Some a \<and> \<not> (is_widget a \<and> has_T a \<and> field_key a \<in> dom data) \<longrightarrow>
      annot_at (fill_pdf repr data template) i j = Some a)"
proof -
  have 1: "length (pages (fill_pdf repr data template)) = length (pages template)"
    by (simp add: fill_pdf_def)
  have 2: "annot_at template i j = None \<longrightarrow> annot_at (fill_pdf repr data template) i j = None"
    by (simp add: annot_at_fill_pdf)
  have 3: "annot_at template i j = Some a \<and> is_widget a \<and> has_T a \<and> data (field_key a) = Some v \<longrightarrow>
      annot_at (fill_pdf repr data template) i j =
        Some (a\<lparr>annot_V := Some (py_str repr v), annot_AS := Some (py_str repr v)\<rparr>)"
    by (simp add: annot_at_fill_pdf fill_annot_matched)
  have 4: "annot_at template i j = Some a \<and> \<not> (is_widget a \<and> has_T a \<and> field_key a \<in> dom data) \<longrightarrow>
      annot_at (fill_pdf repr data template) i j = Some a"
    using fill_annot_other [of a data repr] by (auto simp: annot_at_fill_pdf)
  from 1 2 3 4 show ?thesis by blast
qed

theorem fill_sets_value_of_matched_widgets_witness:
  "annot_at ex_fill_doc 0 0 = Some (widget ''name'' None) \<and>
   is_widget (widget ''name'' None) \<and> has_T (widget ''name'' None) \<and>
   map_of [(''name'', JStr ''Alice''), (''extra'', JInt 7)] (field_key (widget ''name'' None)) =
     Some (JStr ''Alice'') \<and>
   annot_at (fill_pdf ex_repr (map_of [(''name'', JStr ''Alice''), (''extra'', JInt 7)]) ex_fill_doc) 0 0 =
     Some ((widget ''name'' None)\<lparr>annot_V := Some ''Alice'', annot_AS := Some ''Alice''\<rparr>) \<and>
   annot_at ex_fill_doc 0 1 = Some (widget ''date'' None) \<and>
   field_key (widget ''date'' None) \<notin> dom (map_of [(''name'', JStr ''Alice''), (''extra'', JInt 7)]) \<and>
   annot_at (fill_pdf ex_repr (map_of [(''name'', JStr ''Alice''), (''extra'', JInt 7)]) ex_fill_doc) 0 1 =
     Some (widget ''date'' None) \<and>
   annot_at ex_fill_doc 0 3 = None \<and>
   annot_at (fill_pdf ex_repr (map_of [(''name'', JStr ''Alice''), (''extra'', JInt 7)]) ex_fill_doc) 0 3 = None"
proof -
  let ?data = "map_of [(''name'', JStr ''Alice''), (''extra'', JInt 7)]"
  have a0: "annot_at ex_fill_doc 0 0 = Some (widget ''name'' None)"
    by (simp add: annot_at_def ex_fill_doc_def one_page_def page_annots_def)
  have a1: "annot_at ex_fill_doc 0 1 = Some (widget ''date'' None)"
    by (simp add: annot_at_def ex_fill_doc_def one_page_def page_annots_def)
  have a3: "annot_at ex_fill_doc 0 3 = None"
    by (simp add: annot_at_def ex_fill_doc_def one_page_def page_annots_def)
  have w: "is_widget (widget ''name'' None)" "has_T (widget ''name'' None)"
    by (simp_all add: is_widget_def has_T_def widget_def)
  have k0: "?data (field_key (widget ''name'' None)) = Some (JStr ''Alice'')"
    by (simp add: field_key_def widget_def strip_delims_def)
  have k1: "field_key (widget ''date'' None) \<notin> dom ?data"
    by (simp add: field_key_def widget_def strip_delims_def dom_def)
  have r0: "annot_at (fill_pdf ex_repr ?data ex_fill_doc) 0 0 =
      Some ((widget ''name'' None)\<lparr>annot_V := Some (py_str ex_repr (JStr ''Alice'')),
                                   annot_AS := Some (py_str ex_repr (JStr ''Alice''))\<rparr>)"
    using fill_sets_value_of_matched_widgets [of ex_repr ?data ex_fill_doc 0 0 "widget ''name'' None" "JStr ''Alice''"]
      a0 w k0 by blast
  have r1: "annot_at (fill_pdf ex_repr ?data ex_fill_doc) 0 1 = Some (widget ''date'' None)"
    using fill_sets_value_of_matched_widgets [of ex_repr ?data ex_fill_doc 0 1 "widget ''date'' None"]
      a1 k1 by blast
  have r3: "annot_at (fill_pdf ex_repr ?data ex_fill_doc) 0 3 = None"
    using fill_sets_value_of_matched_widgets [of ex_repr ?data ex_fill_doc 0 3] a3 by blast
  from a0 a1 a3 w k0 k1 r0 r1 r3 show ?thesis by simp
qed

text \<open>
  Claim C5 as it is written restricts the filled widgets to those with a non-empty field
  name and leaves every other annotation untouched. A widget with the empty field name,
  \<^verbatim>\<open>/T ()\<close>, is filled when the data has the key \<^verbatim>\<open>""\<close>.
\<close>

theorem fill_empty_field_name_counterexample:
  "is_widget ex_empty_name \<and> field_key ex_empty_name = [] \<and>
   annot_at (one_page (Some [ex_empty_name]) None) 0 0 = Some ex_empty_name \<and>
   annot_at (fill_pdf ex_repr (map_of [([], JStr ''x'')]) (one_page (Some [ex_empty_name]) None)) 0 0 =
     Some (ex_empty_name\<lparr>annot_V := Some ''x'', annot_AS := Some ''x''\<rparr>) \<and>
   ex_empty_name\<lparr>annot_V := Some ''x'', annot_AS := Some ''x''\<rparr> \<noteq> ex_empty_name"
  by (simp add: is_widget_def field_key_def strip_delims_def ex_empty_name_def annot_at_def
      one_page_def page_annots_def fill_pdf_def fill_page_def fill_annot_def has_T_def)

text \<open>
  Claim C9. Filling with an empty data map changes no page and no annotation: the result
  is the input with \<open>set_need_appearances\<close> applied to the AcroForm entry. A document
  without AcroForm entry is returned as it is, and an AcroForm dictionary of the result has
  the entries of the input's for every key other than \<^verbatim>\<open>/NeedAppearances\<close>.
\<close>

theorem fill_empty_data_is_identity:
  "pages (fill_pdf repr Map.empty pdf) = pages pdf \<and>
   fill_pdf repr Map.empty pdf = pdf\<lparr>AcroForm := set_need_appearances (AcroForm pdf)\<rparr> \<and>
   (AcroForm pdf = None \<longrightarrow> fill_pdf repr Map.empty pdf = pdf) \<and>
   (\<forall>d'. AcroForm (fill_pdf repr Map.empty pdf) = Some d' \<longrightarrow>
      (\<exists>d. AcroForm pdf = Some d \<and>
           (\<forall>k. k \<noteq> ''/NeedAppearances'' \<longrightarrow> map_of d' k = map_of d k)))"
proof -
  have p: "map (fill_page repr Map.empty) ps = ps" for ps
    by (induction ps) (simp_all add: fill_page_empty)
  have 1: "pages (fill_pdf repr Map.empty pdf) = pages pdf"
    by (simp add: fill_pdf_def p)
  have 2: "fill_pdf repr Map.empty pdf = pdf\<lparr>AcroForm := set_need_appearances (AcroForm pdf)\<rparr>"
    by (simp add: fill_pdf_def p)
  have 3: "AcroForm pdf = None \<longrightarrow> fill_pdf repr Map.empty pdf = pdf"
    by (simp add: 2 set_need_appearances_def)
  have 4: "\<forall>d'. AcroForm (fill_pdf repr Map.empty pdf) = Some d' \<longrightarrow>
      (\<exists>d. AcroForm pdf = Some d \<and>
           (\<forall>k. k \<noteq> ''/NeedAppearances'' \<longrightarrow> map_of d' k = map_of d k))"
    using map_of_set_need_appearances [of "AcroForm pdf"] by (simp add: 2)
  from 1 2 3 4 show ?thesis by blast
qed

theorem fill_empty_data_is_identity_witness:
  "fill_pdf ex_repr Map.empty ex_form_doc =
     ex_form_doc\<lparr>AcroForm := Some [(''/Fields'', ''[1 0 R]''), (''/NeedAppearances'', ''true'')]\<rparr> \<and>
   pages (fill_pdf ex_repr Map.empty ex_form_doc) = pages ex_form_doc \<and>
   AcroForm ex_name_doc = None \<and>
   fill_pdf ex_repr Map.empty ex_name_doc = ex_name_doc"
proof -
  have a: "set_need_appearances (AcroForm ex_form_doc) =
      Some [(''/Fields'', ''[1 0 R]''), (''/NeedAppearances'', ''true'')]"
    by (simp add: ex_form_doc_def one_page_def set_need_appearances_def)
  have n: "AcroForm ex_name_doc = None"
    by (simp add: ex_name_doc_def one_page_def)
  from fill_empty_data_is_identity [of ex_repr ex_form_doc]
    fill_empty_data_is_identity [of ex_repr ex_name_doc] a n
  show ?thesis by (simp add: set_need_appearances_def)
qed

section \<open>The regenerate-appearances flag\<close>

text \<open>
  Claim C7, as amended. The three stages test the truth value of the AcroForm dictionary,
  not its presence. When the document has an AcroForm dictionary with at least one entry,
  \<^verbatim>\<open>/NeedAppearances\<close> is \<^verbatim>\<open>true\<close> after \<open>fill_pdf\<close>, after \<open>set_fields_readonly\<close> and
  after every run of \<open>set_button_visibility\<close> that returns; it returns for every visibility
  map that is a dictionary and empties no page. When the AcroForm entry is absent or is a
  dictionary without entries, each stage leaves it as it is.
\<close>

theorem stages_set_need_appearances:
  "(AcroForm pdf = Some d \<and> d \<noteq> [] \<longrightarrow>
      need_appearances (fill_pdf repr data pdf) = Some ''true'' \<and>
      need_appearances (set_fields_readonly field_names pdf) = Some ''true'' \<and>
      (\<forall>out. set_button_visibility visibility_map pdf = Inr out \<longrightarrow>
         need_appearances out = Some ''true'') \<and>
      (no_page_emptied kvs pdf \<longrightarrow>
         (\<exists>out. set_button_visibility (JObj kvs) pdf = Inr out \<and>
            need_appearances out = Some ''true''))) \<and>
   (AcroForm pdf = None \<or> AcroForm pdf = Some [] \<longrightarrow>
      AcroForm (fill_pdf repr data pdf) = AcroForm pdf \<and>
      AcroForm (set_fields_readonly field_names pdf) = AcroForm pdf \<and>
      (\<forall>out. set_button_visibility visibility_map pdf = Inr out \<longrightarrow> AcroForm out = AcroForm pdf))"
proof -
  have vis: "AcroForm out = set_need_appearances (AcroForm pdf)"
    if "set_button_visibility vm pdf = Inr out" for vm out
    using set_button_visibility_nth [OF that] by simp
  have 1: "need_appearances (fill_pdf repr data pdf) = Some ''true''"
    if "AcroForm pdf = Some d" "d \<noteq> []"
    using need_appearances_set [OF that] by (simp add: need_appearances_def fill_pdf_def)
  have 2: "need_appearances (set_fields_readonly field_names pdf) = Some ''true''"
    if "AcroForm pdf = Some d" "d \<noteq> []"
    using need_appearances_set [OF that] by (simp add: need_appearances_def set_fields_readonly_def)
  have 3: "need_appearances out = Some ''true''"
    if "AcroForm pdf = Some d" "d \<noteq> []" "set_button_visibility vm pdf = Inr out" for vm out
    using need_appearances_set [OF that(1,2)] vis [OF that(3)] by (simp add: need_appearances_def)
  have 4: "\<exists>out. set_button_visibility (JObj kvs) pdf = Inr out \<and> need_appearances out = Some ''true''"
    if "AcroForm pdf = Some d" "d \<noteq> []" "no_page_emptied kvs pdf"
    using set_button_visibility_dict [OF that(3)] 3 [OF that(1,2)] by blast
  have 5: "AcroForm (fill_pdf repr data pdf) = AcroForm pdf"
    if "AcroForm pdf = None \<or> AcroForm pdf = Some []"
    using set_need_appearances_skip [OF that] by (simp add: fill_pdf_def)
  have 6: "AcroForm (set_fields_readonly field_names pdf) = AcroForm pdf"
    if "AcroForm pdf = None \<or> AcroForm pdf = Some []"
    using set_need_appearances_skip [OF that] by (simp add: set_fields_readonly_def)
  have 7: "AcroForm out = AcroForm pdf"
    if "AcroForm pdf = None \<or> AcroForm pdf = Some []" "set_button_visibility vm pdf = Inr out" for vm out
    using set_need_appearances_skip [OF that(1)] vis [OF that(2)] by simp
  from 1 2 3 4 5 6 7 show ?thesis by blast
qed

theorem stages_set_need_appearances_witness:
  "AcroForm ex_form_doc = Some [(''/Fields'', ''[1 0 R]'')] \<and>
   [(''/Fields'', ''[1 0 R]'')] \<noteq> ([] :: pdf_dict) \<and>
   no_page_emptied [(''name'', JBool True)] ex_form_doc \<and>
   need_appearances (fill_pdf ex_repr (map_of [(''name'', JStr ''Alice'')]) ex_form_doc) = Some ''true'' \<and>
   need_appearances (set_fields_readonly None ex_form_doc) = Some ''true'' \<and>
   (\<exists>out. set_button_visibility (JObj [(''name'', JBool True)]) ex_form_doc = Inr out \<and>
      need_appearances out = Some ''true'') \<and>
   AcroForm (fill_pdf ex_repr (map_of [(''name'', JStr ''Alice'')]) ex_form_doc) =
     Some [(''/Fields'', ''[1 0 R]''), (''/NeedAppearances'', ''true'')]"
proof -
  have h: "AcroForm ex_form_doc = Some [(''/Fields'', ''[1 0 R]'')]"
    by (simp add: ex_form_doc_def one_page_def)
  have n: "[(''/Fields'', ''[1 0 R]'')] \<noteq> ([] :: pdf_dict)"
    by simp
  have k: "no_page_emptied [(''name'', JBool True)] ex_form_doc"
    by (simp add: no_page_emptied_def page_not_emptied_def spec_show_annot_def ex_form_doc_def
        eval_defs)
  have e: "AcroForm (fill_pdf ex_repr (map_of [(''name'', JStr ''Alice'')]) ex_form_doc) =
     Some [(''/Fields'', ''[1 0 R]''), (''/NeedAppearances'', ''true'')]"
    by (simp add: fill_pdf_def ex_form_doc_def one_page_def set_need_appearances_def)
  from stages_set_need_appearances
    [of ex_form_doc "[(''/Fields'', ''[1 0 R]'')]" ex_repr "map_of [(''name'', JStr ''Alice'')]" None
        JNull "[(''name'', JBool True)]"]
    h n k e show ?thesis by blast
qed

text \<open>
  Claim C7 as it is written promises the flag whenever the document has an AcroForm
  object. A document whose AcroForm dictionary has no entries has one, and no stage sets
  the flag in it.
\<close>

theorem empty_acroform_counterexample:
  "AcroForm ex_empty_form_doc = Some [] \<and>
   need_appearances (fill_pdf ex_repr (map_of [(''name'', JStr ''Alice'')]) ex_empty_form_doc) = None \<and>
   need_appearances (set_fields_readonly None ex_empty_form_doc) = None \<and>
   set_button_visibility (JObj [(''name'', JBool True)]) ex_empty_form_doc =
     Inr (one_page (Some [(widget ''name'' None)\<lparr>annot_F := Some 0\<rparr>]) (Some [])) \<and>
   need_appearances (one_page (Some [(widget ''name'' None)\<lparr>annot_F := Some 0\<rparr>]) (Some [])) = None"
  by (simp add: ex_empty_form_doc_def one_page_def need_appearances_def fill_pdf_def
      set_fields_readonly_def set_need_appearances_def set_button_visibility_def
      visibility_page_def is_widget_def has_T_def widget_def field_key_def strip_delims_def)

section \<open>Visibility Controller: dropped and shown widgets\<close>



text \<open>
  Claim C8 says that a page whose rebuilt annotation list is empty has no \<^verbatim>\<open>/Annots\<close> entry
  after the stage. The comment above source line 97 states the same intent, but the call
  \<^verbatim>\<open>page.pop('/Annots', None)\<close> raises: for every page whose annotation list is not empty
  and whose rebuilt list is empty, the round of the loop for that page raises
  \<^verbatim>\<open>TypeError\<close>, so the stage returns no document at all; with a visibility map that is a
  dictionary the exception of the stage is that \<^verbatim>\<open>TypeError\<close>.
\<close>

theorem emptied_page_raises:
  "i < length (pages pdf) \<and> Annots (pages pdf ! i) = Some annots \<and> annots \<noteq> [] \<and>
   rebuild_annots visibility_map annots = Inr [] \<longrightarrow>
     visibility_page visibility_map (pages pdf ! i) = Inl TypeError \<and>
     (\<exists>err. set_button_visibility visibility_map pdf = Inl err) \<and>
     (\<forall>kvs. visibility_map = JObj kvs \<longrightarrow>
        set_button_visibility visibility_map pdf = Inl TypeError)"
proof
  assume h: "i < length (pages pdf) \<and> Annots (pages pdf ! i) = Some annots \<and> annots \<noteq> [] \<and>
   rebuild_annots visibility_map annots = Inr []"
  then have page: "visibility_page visibility_map (pages pdf ! i) = Inl TypeError"
    using visibility_page_emptied by blast
  from h have i: "i < length (pages pdf)" by blast
  obtain err where err: "set_button_visibility visibility_map pdf = Inl err"
    using set_button_visibility_raises [OF i page] by blast
  have "set_button_visibility visibility_map pdf = Inl TypeError"
    if "visibility_map = JObj kvs" for kvs
    using err set_button_visibility_dict_error [of kvs pdf err] that by simp
  with page err
  show "visibility_page visibility_map (pages pdf ! i) = Inl TypeError \<and>
     (\<exists>err. set_button_visibility visibility_map pdf = Inl err) \<and>
     (\<forall>kvs. visibility_map = JObj kvs \<longrightarrow>
        set_button_visibility visibility_map pdf = Inl TypeError)"
    by blast
qed

theorem emptied_page_raises_witness:
  "0 < length (pages ex_two_pages) \<and>
   Annots (pages ex_two_pages ! 0) = Some [widget ''signature'' None] \<and>
   [widget ''signature'' None] \<noteq> [] \<and>
   rebuild_annots (JObj [(''signature'', JBool False)]) [widget ''signature'' None] = Inr [] \<and>
   set_button_visibility (JObj [(''signature'', JBool False)]) ex_two_pages = Inl TypeError"
proof -
  have i: "0 < length (pages ex_two_pages)"
    by (simp add: ex_two_pages_def)
  have a: "Annots (pages ex_two_pages ! 0) = Some [widget ''signature'' None]"
    by (simp add: ex_two_pages_def)
  have n: "[widget ''signature'' None] \<noteq> []"
    by simp
  have r: "rebuild_annots (JObj [(''signature'', JBool False)]) [widget ''signature'' None] = Inr []"
    by (simp add: widget_def is_widget_def has_T_def field_key_def strip_delims_def)
  from emptied_page_raises
    [of 0 ex_two_pages "[widget ''signature'' None]" "JObj [(''signature'', JBool False)]"] i a n r
  have "set_button_visibility (JObj [(''signature'', JBool False)]) ex_two_pages = Inl TypeError"
    by blast
  with i a n r show ?thesis by blast
qed

section \<open>Locking, then showing\<close>

text \<open>
  Claim C1, as amended. The Field Locker writes the field flags \<^verbatim>\<open>/Ff\<close> and the Visibility
  Controller writes the annotation flags \<^verbatim>\<open>/F\<close>. Whenever the Visibility Controller returns
  after every field was locked, a widget whose field name is mapped to a true value is on
  its page with \<^verbatim>\<open>/F\<close> equal to 0 and with \<^verbatim>\<open>/Ff\<close> equal to the existing field flags
  bitwise-or 1: the read-only bit is still set. The same holds for every widget of that
  field name on the page. The Visibility Controller returns when the map is a dictionary
  that empties no page of the locked document.
\<close>

theorem show_keeps_readonly_bit:
  "(i < length (pages pdf) \<and> a \<in> set (page_annots (pages pdf ! i)) \<and> is_widget a \<and> has_T a \<and>
    map_of kvs (field_key a) = Some v \<and> py_truthy v \<and>
    set_button_visibility (JObj kvs) (set_fields_readonly None pdf) = Inr out \<longrightarrow>
      a\<lparr>annot_Ff := Some (existing_flags a OR 1), annot_F := Some 0\<rparr>
        \<in> set (page_annots (pages out ! i)) \<and>
      bit (existing_flags a OR 1) 0 \<and>
      (\<forall>b\<in>set (page_annots (pages out ! i)).
         is_widget b \<and> has_T b \<and> field_key b = field_key a \<longrightarrow>
           annot_F b = Some 0 \<and> (\<exists>f. annot_Ff b = Some f \<and> bit f 0))) \<and>
   (no_page_emptied kvs (set_fields_readonly None pdf) \<longrightarrow>
      (\<exists>out'. set_button_visibility (JObj kvs) (set_fields_readonly None pdf) = Inr out'))"
proof -
  have main: "a\<lparr>annot_Ff := Some (existing_flags a OR 1), annot_F := Some 0\<rparr>
        \<in> set (page_annots (pages out ! i)) \<and>
      bit (existing_flags a OR 1) 0 \<and>
      (\<forall>b\<in>set (page_annots (pages out ! i)).
         is_widget b \<and> has_T b \<and> field_key b = field_key a \<longrightarrow>
           annot_F b = Some 0 \<and> (\<exists>f. annot_Ff b = Some f \<and> bit f 0))"
    if h: "i < length (pages pdf) \<and> a \<in> set (page_annots (pages pdf ! i)) \<and> is_widget a \<and> has_T a \<and>
    map_of kvs (field_key a) = Some v \<and> py_truthy v \<and>
    set_button_visibility (JObj kvs) (set_fields_readonly None pdf) = Inr out"
  proof -
    let ?locked = "set_fields_readonly None pdf"
    from h have out: "set_button_visibility (JObj kvs) ?locked = Inr out" by blast
    have i: "i < length (pages ?locked)"
      using h by (simp add: set_fields_readonly_def)
    have xs: "page_annots (pages ?locked ! i) = map (lock_annot None) (page_annots (pages pdf ! i))"
      using h by (simp add: set_fields_readonly_def page_annots_lock_page)
    have ys: "page_annots (pages out ! i) =
        List.map_filter (spec_show_annot kvs) (map (lock_annot None) (page_annots (pages pdf ! i)))"
      using set_button_visibility_dict_annots [OF out i] xs by simp
    let ?a' = "a\<lparr>annot_Ff := Some (existing_flags a OR 1)\<rparr>"
    have la: "lock_annot None a = ?a'"
      using h by (simp add: lock_annot_named)
    have "is_widget ?a' \<and> has_T ?a' \<and> field_key ?a' = field_key a"
      using lock_annot_keeps_name [of None a] la h by simp
    then have "spec_show_annot kvs ?a' = Some (?a'\<lparr>annot_F := Some 0\<rparr>)"
      using h show_annot_shown [of ?a' kvs v] by simp
    moreover have "?a' \<in> set (map (lock_annot None) (page_annots (pages pdf ! i)))"
      using h la by force
    ultimately have 1: "a\<lparr>annot_Ff := Some (existing_flags a OR 1), annot_F := Some 0\<rparr>
        \<in> set (page_annots (pages out ! i))"
      unfolding ys set_map_filter_show by force
    have 2: "bit (existing_flags a OR 1) 0"
      by (simp add: or_one_bits)
    have 3: "annot_F b = Some 0 \<and> (\<exists>f. annot_Ff b = Some f \<and> bit f 0)"
      if b: "b \<in> set (page_annots (pages out ! i))" "is_widget b \<and> has_T b \<and> field_key b = field_key a" for b
    proof -
      from b(1) obtain c where c: "c \<in> set (page_annots (pages pdf ! i))"
        "spec_show_annot kvs (lock_annot None c) = Some b"
        unfolding ys set_map_filter_show by auto
      from show_annot_Some_named [OF c(2)] b(2) h
      have n: "is_widget (lock_annot None c)" "has_T (lock_annot None c)"
        and e: "b = (lock_annot None c)\<lparr>annot_F := Some 0\<rparr>"
        by auto
      from n have "is_widget c" "has_T c"
        using lock_annot_keeps_name [of None c] by simp_all
      then have "lock_annot None c = c\<lparr>annot_Ff := Some (existing_flags c OR 1)\<rparr>"
        by (simp add: lock_annot_named)
      with e have "annot_F b = Some 0" "annot_Ff b = Some (existing_flags c OR 1)"
        by simp_all
      then show ?thesis by (simp add: or_one_bits)
    qed
    from 1 2 3 show ?thesis by blast
  qed
  have returns: "\<exists>out'. set_button_visibility (JObj kvs) (set_fields_readonly None pdf) = Inr out'"
    if "no_page_emptied kvs (set_fields_readonly None pdf)"
    using set_button_visibility_dict [OF that] .
  from main returns show ?thesis by blast
qed

theorem show_keeps_readonly_bit_witness:
  "0 < length (pages ex_name_doc) \<and>
   widget ''name'' None \<in> set (page_annots (pages ex_name_doc ! 0)) \<and>
   is_widget (widget ''name'' None) \<and> has_T (widget ''name'' None) \<and>
   map_of [(''name'', JBool True)] (field_key (widget ''name'' None)) = Some (JBool True) \<and>
   py_truthy (JBool True) \<and>
   no_page_emptied [(''name'', JBool True)] (set_fields_readonly None ex_name_doc) \<and>
   (\<exists>out. set_button_visibility (JObj [(''name'', JBool True)])
             (set_fields_readonly None ex_name_doc) = Inr out \<and>
      (widget ''name'' (Some 1))\<lparr>annot_F := Some 0\<rparr> \<in> set (page_annots (pages out ! 0)))"
proof -
  have h: "0 < length (pages ex_name_doc) \<and>
   widget ''name'' None \<in> set (page_annots (pages ex_name_doc ! 0)) \<and>
   is_widget (widget ''name'' None) \<and> has_T (widget ''name'' None) \<and>
   map_of [(''name'', JBool True)] (field_key (widget ''name'' None)) = Some (JBool True) \<and>
   py_truthy (JBool True)"
    by (simp add: ex_name_doc_def one_page_def page_annots_def widget_def is_widget_def has_T_def
        field_key_def strip_delims_def)
  have k: "no_page_emptied [(''name'', JBool True)] (set_fields_readonly None ex_name_doc)"
    by (simp add: no_page_emptied_def page_not_emptied_def spec_show_annot_def ex_name_doc_def
        eval_defs)
  have e: "(widget ''name'' None)\<lparr>annot_Ff := Some (existing_flags (widget ''name'' None) OR 1),
                                  annot_F := Some 0\<rparr> =
      (widget ''name'' (Some 1))\<lparr>annot_F := Some 0\<rparr>"
    by (simp add: widget_def existing_flags_def)
  from show_keeps_readonly_bit [of 0 ex_name_doc "widget ''name'' None" "[(''name'', JBool True)]"] k
  obtain out where out: "set_button_visibility (JObj [(''name'', JBool True)])
             (set_fields_readonly None ex_name_doc) = Inr out"
    by blast
  from show_keeps_readonly_bit
    [of 0 ex_name_doc "widget ''name'' None" "[(''name'', JBool True)]" "JBool True" out] h out
  have "(widget ''name'' None)\<lparr>annot_Ff := Some (existing_flags (widget ''name'' None) OR 1),
                                  annot_F := Some 0\<rparr> \<in> set (page_annots (pages out ! 0))"
    by blast
  with h k e out show ?thesis by auto
qed

text \<open>
  Claim C1 as it is written says that showing a locked field clears its read-only state.
  On a widget without flags, locking and then showing leaves \<^verbatim>\<open>/Ff\<close> equal to 1.
\<close>

theorem show_after_lock_counterexample:
  "set_button_visibility (JObj [(''name'', JBool True)]) (set_fields_readonly None ex_name_doc) =
     Inr (one_page (Some [(widget ''name'' (Some 1))\<lparr>annot_F := Some 0\<rparr>]) None) \<and>
   annot_Ff ((widget ''name'' (Some 1))\<lparr>annot_F := Some 0\<rparr>) = Some 1 \<and>
   annot_Ff ((widget ''name'' (Some 1))\<lparr>annot_F := Some 0\<rparr>) \<noteq> Some 0 \<and>
   bit (1::int) 0"
  by (simp add: ex_name_doc_def eval_defs)

section \<open>The handler\<close>

lemma rebuild_annots_None:
  "\<exists>a\<in>set annots. is_widget a \<and> has_T a \<Longrightarrow> rebuild_annots JNull annots = Inl TypeError"
proof (induction annots)
  case Nil
  then show ?case by simp
next
  case (Cons a annots)
  show ?case
  proof (cases "is_widget a \<and> has_T a")
    case True
    then show ?thesis by simp
  next
    case False
    with Cons.prems have "\<exists>b\<in>set annots. is_widget b \<and> has_T b" by auto
    with Cons.IH False show ?thesis by simp
  qed
qed

lemma rebuild_annots_None_error:
  "rebuild_annots JNull annots = Inl err \<Longrightarrow> err = TypeError"
  by (induction annots arbitrary: err) (auto split: if_splits sum.splits)

lemma visibility_page_None_error:
  "visibility_page JNull p = Inl err \<Longrightarrow> err = TypeError"
  by (auto simp: visibility_page_def rebuild_annots_None_error split: option.splits if_splits sum.splits)

lemma visibility_page_None:
  "\<exists>a\<in>set (page_annots p). is_widget a \<and> has_T a \<Longrightarrow> visibility_page JNull p = Inl TypeError"
  using rebuild_annots_None [of "page_annots p"]
  by (auto simp: visibility_page_def page_annots_def split: option.splits)

lemma visibility_pages_None:
  "\<exists>p\<in>set ps. \<exists>a\<in>set (page_annots p). is_widget a \<and> has_T a \<Longrightarrow>
   visibility_pages JNull ps = Inl TypeError"
proof (induction ps)
  case Nil
  then show ?case by simp
next
  case (Cons p ps)
  show ?case
  proof (cases "visibility_page JNull p")
    case (Inl err)
    then show ?thesis
      using visibility_page_None_error [OF Inl] by simp
  next
    case (Inr p')
    then have "\<not> (\<exists>a\<in>set (page_annots p). is_widget a \<and> has_T a)"
      using visibility_page_None [of p] by auto
    with Cons.prems have "\<exists>q\<in>set ps. \<exists>a\<in>set (page_annots q). is_widget a \<and> has_T a"
      by auto
    with Cons.IH Inr show ?thesis by simp
  qed
qed

lemma annot_at_named_widget:
  "annot_at pdf i j = Some a \<Longrightarrow> is_widget a \<Longrightarrow> has_T a \<Longrightarrow>
   \<exists>p\<in>set (pages pdf). \<exists>b\<in>set (page_annots p). is_widget b \<and> has_T b"
  by (auto simp: annot_at_def split: if_splits intro!: bexI [of _ "pages pdf ! i"] bexI [of _ a])

lemma set_button_visibility_None:
  assumes "annot_at pdf i j = Some a" and "is_widget a" and "has_T a"
  shows "set_button_visibility JNull (set_fields_readonly None (fill_pdf repr data pdf)) = Inl TypeError"
proof -
  let ?b = "lock_annot None (fill_annot repr data a)"
  have "annot_at (set_fields_readonly None (fill_pdf repr data pdf)) i j = Some ?b"
    using assms(1) by (simp add: annot_at_set_fields_readonly annot_at_fill_pdf)
  moreover have "is_widget ?b" "has_T ?b"
    using assms(2,3) lock_annot_keeps_name [of None "fill_annot repr data a"]
      fill_annot_keeps_name [of repr data a] by simp_all
  ultimately have "\<exists>p\<in>set (pages (set_fields_readonly None (fill_pdf repr data pdf))).
      \<exists>b\<in>set (page_annots p). is_widget b \<and> has_T b"
    by (rule annot_at_named_widget)
  then show ?thesis
    by (simp add: set_button_visibility_def visibility_pages_None)
qed

text \<open>
  Claim C2 says that a request without \<^verbatim>\<open>visibility_map\<close> runs to the end and returns
  status 200. The code does the opposite. \<^verbatim>\<open>body.get('visibility_map')\<close> is \<^verbatim>\<open>None\<close> then,
  and \<^verbatim>\<open>key in visibility_map\<close> raises a \<^verbatim>\<open>TypeError\<close> at the first widget that passes the
  test on \<^verbatim>\<open>/T\<close>: for every request body that is a dictionary without the key
  \<^verbatim>\<open>visibility_map\<close>, and every template that the download finds and that holds such a
  widget, the handler raises \<^verbatim>\<open>TypeError\<close>.
\<close>

theorem handler_without_visibility_map_raises:
  "request_body = JObj kvs \<and> map_of kvs ''visibility_map'' = None \<and>
   py_get request_body ''template_path'' (JStr TEMPLATE_KEY) = Inr (JStr path) \<and>
   s3_objects e path = Some template \<and>
   annot_at template i j = Some a \<and> is_widget a \<and> has_T a \<longrightarrow>
     lambda_handler e request_body = Inl TypeError"
proof
  assume h: "request_body = JObj kvs \<and> map_of kvs ''visibility_map'' = None \<and>
   py_get request_body ''template_path'' (JStr TEMPLATE_KEY) = Inr (JStr path) \<and>
   s3_objects e path = Some template \<and>
   annot_at template i j = Some a \<and> is_widget a \<and> has_T a"
  then have v: "set_button_visibility JNull
      (set_fields_readonly None (fill_pdf (py_repr e) (as_dict request_body) template)) = Inl TypeError"
    using set_button_visibility_None by blast
  from h have g: "py_get request_body ''visibility_map'' JNull = Inr JNull"
    by simp
  from h have t: "py_get request_body ''template_path'' (JStr TEMPLATE_KEY) = Inr (JStr path)"
    and o: "s3_objects e path = Some template"
    by blast+
  show "lambda_handler e request_body = Inl TypeError"
    unfolding lambda_handler_def by (simp add: t o g v del: py_get.simps)
qed

theorem handler_without_visibility_map_raises_witness:
  "map_of [(''name'', JStr ''Alice'')] ''visibility_map'' = None \<and>
   py_get (JObj [(''name'', JStr ''Alice'')]) ''template_path'' (JStr TEMPLATE_KEY) = Inr (JStr TEMPLATE_KEY) \<and>
   s3_objects (ex_env TEMPLATE_KEY ex_name_doc) TEMPLATE_KEY = Some ex_name_doc \<and>
   annot_at ex_name_doc 0 0 = Some (widget ''name'' None) \<and>
   is_widget (widget ''name'' None) \<and> has_T (widget ''name'' None) \<and>
   lambda_handler (ex_env TEMPLATE_KEY ex_name_doc) (JObj [(''name'', JStr ''Alice'')]) = Inl TypeError"
proof -
  have h: "map_of [(''name'', JStr ''Alice'')] ''visibility_map'' = None \<and>
   py_get (JObj [(''name'', JStr ''Alice'')]) ''template_path'' (JStr TEMPLATE_KEY) = Inr (JStr TEMPLATE_KEY) \<and>
   s3_objects (ex_env TEMPLATE_KEY ex_name_doc) TEMPLATE_KEY = Some ex_name_doc \<and>
   annot_at ex_name_doc 0 0 = Some (widget ''name'' None) \<and>
   is_widget (widget ''name'' None) \<and> has_T (widget ''name'' None)"
    by (simp add: ex_env_def annot_at_def ex_name_doc_def one_page_def page_annots_def
        is_widget_def has_T_def widget_def)
  with handler_without_visibility_map_raises
    [of "JObj [(''name'', JStr ''Alice'')]" "[(''name'', JStr ''Alice'')]" TEMPLATE_KEY
        "ex_env TEMPLATE_KEY ex_name_doc" ex_name_doc 0 0 "widget ''name'' None"]
  show ?thesis by blast
qed

text \<open>
  Claim C6. The template has the widgets \<^verbatim>\<open>name\<close> and \<^verbatim>\<open>signature\<close>, both with flags 0.
  Filling with \<^verbatim>\<open>{"name": "Alice"}\<close>, locking every field and applying the visibility map
  \<^verbatim>\<open>{"signature": false}\<close> gives a document whose page holds one annotation, the widget
  \<^verbatim>\<open>name\<close> with value \<^verbatim>\<open>Alice\<close> and field flags 1; the widget \<^verbatim>\<open>signature\<close> is gone. The
  handler uploads the same document for the request that carries this data and this map,
  and answers with status 200.
\<close>

theorem scenario_name_locked_signature_removed:
  "set_button_visibility (JObj [(''signature'', JBool False)])
     (set_fields_readonly None
        (fill_pdf repr (map_of [(''name'', JStr ''Alice'')]) scenario_template)) =
     Inr scenario_result \<and>
   lambda_handler (ex_env TEMPLATE_KEY scenario_template)
     (JObj [(''name'', JStr ''Alice''), (''visibility_map'', JObj [(''signature'', JBool False)])]) =
     Inr (\<lparr>statusCode = 200, body = JObj [(''url'', JStr ''https://s3.example/output/0000.pdf'')]\<rparr>,
          ''output/0000.pdf'', scenario_result) \<and>
   map_option annot_V (annot_at scenario_result 0 0) = Some (Some ''Alice'') \<and>
   map_option annot_Ff (annot_at scenario_result 0 0) = Some (Some 1) \<and>
   map_option field_key (annot_at scenario_result 0 0) = Some ''name'' \<and>
   length (page_annots (pages scenario_result ! 0)) = 1"
proof -
  have 1: "set_button_visibility (JObj [(''signature'', JBool False)])
     (set_fields_readonly None
        (fill_pdf repr (map_of [(''name'', JStr ''Alice'')]) scenario_template)) =
     Inr scenario_result"
    by (simp add: scenario_template_def scenario_result_def eval_defs)
  have 2: "lambda_handler (ex_env TEMPLATE_KEY scenario_template)
     (JObj [(''name'', JStr ''Alice''), (''visibility_map'', JObj [(''signature'', JBool False)])]) =
     Inr (\<lparr>statusCode = 200, body = JObj [(''url'', JStr ''https://s3.example/output/0000.pdf'')]\<rparr>,
          ''output/0000.pdf'', scenario_result)"
    by (simp add: lambda_handler_def ex_env_def ex_url_def TEMPLATE_KEY_def Let_def
        scenario_template_def scenario_result_def eval_defs)
  have 3: "map_option annot_V (annot_at scenario_result 0 0) = Some (Some ''Alice'') \<and>
   map_option annot_Ff (annot_at scenario_result 0 0) = Some (Some 1) \<and>
   map_option field_key (annot_at scenario_result 0 0) = Some ''name'' \<and>
   length (page_annots (pages scenario_result ! 0)) = 1"
    by (simp add: scenario_result_def eval_defs)
  from 1 2 3 show ?thesis by blast
qed

text \<open>
  Claim C10. For a request body that is a dictionary, once the template is downloaded, the
  handler runs the three stages with the whole body as the data of \<open>fill_pdf\<close>. So a
  widget named \<^verbatim>\<open>template_path\<close> is filled with the template path when the request has
  that key, and a widget named \<^verbatim>\<open>visibility_map\<close> is filled with the string form of the
  visibility map when the request has that key.
\<close>

theorem handler_fills_reserved_keys:
  "request_body = JObj kvs \<and>
   py_get request_body ''template_path'' (JStr TEMPLATE_KEY) = Inr (JStr path) \<and>
   s3_objects e path = Some template \<longrightarrow>
     lambda_handler e request_body =
       (case set_button_visibility (case map_of kvs ''visibility_map'' of None \<Rightarrow> JNull | Some vm \<Rightarrow> vm)
               (set_fields_readonly None (fill_pdf (py_repr e) (map_of kvs) template)) of
          Inl err \<Rightarrow> Inl err
        | Inr out \<Rightarrow>
            Inr (\<lparr>statusCode = 200,
                  body = JObj [(''url'', JStr (presigned_url e (''output/'' @ uuid4 e @ ''.pdf'')))]\<rparr>,
                 ''output/'' @ uuid4 e @ ''.pdf'', out)) \<and>
     (\<forall>i j a. annot_at template i j = Some a \<and> is_widget a \<and>
              annot_T a = Some ''(template_path)'' \<and> map_of kvs ''template_path'' \<noteq> None \<longrightarrow>
        annot_at (fill_pdf (py_repr e) (map_of kvs) template) i j =
          Some (a\<lparr>annot_V := Some path, annot_AS := Some path\<rparr>)) \<and>
     (\<forall>i j a vm. annot_at template i j = Some a \<and> is_widget a \<and>
              annot_T a = Some ''(visibility_map)'' \<and> map_of kvs ''visibility_map'' = Some vm \<longrightarrow>
        annot_at (fill_pdf (py_repr e) (map_of kvs) template) i j =
          Some (a\<lparr>annot_V := Some (py_str (py_repr e) vm), annot_AS := Some (py_str (py_repr e) vm)\<rparr>))"
proof
  assume h: "request_body = JObj kvs \<and>
   py_get request_body ''template_path'' (JStr TEMPLATE_KEY) = Inr (JStr path) \<and>
   s3_objects e path = Some template"
  then have t: "py_get request_body ''template_path'' (JStr TEMPLATE_KEY) = Inr (JStr path)"
    and o: "s3_objects e path = Some template"
    by blast+
  from h have g: "py_get request_body ''visibility_map'' JNull =
      Inr (case map_of kvs ''visibility_map'' of None \<Rightarrow> JNull | Some vm \<Rightarrow> vm)"
    by (simp split: option.splits)
  from h have d: "as_dict request_body = map_of kvs"
    by simp
  have 1: "lambda_handler e request_body =
       (case set_button_visibility (case map_of kvs ''visibility_map'' of None \<Rightarrow> JNull | Some vm \<Rightarrow> vm)
               (set_fields_readonly None (fill_pdf (py_repr e) (map_of kvs) template)) of
          Inl err \<Rightarrow> Inl err
        | Inr out \<Rightarrow>
            Inr (\<lparr>statusCode = 200,
                  body = JObj [(''url'', JStr (presigned_url e (''output/'' @ uuid4 e @ ''.pdf'')))]\<rparr>,
                 ''output/'' @ uuid4 e @ ''.pdf'', out))"
    unfolding lambda_handler_def
    by (simp add: t o g d Let_def del: py_get.simps as_dict.simps split: sum.splits)
  have 2: "annot_at (fill_pdf (py_repr e) (map_of kvs) template) i j =
          Some (a\<lparr>annot_V := Some path, annot_AS := Some path\<rparr>)"
    if "annot_at template i j = Some a \<and> is_widget a \<and>
        annot_T a = Some ''(template_path)'' \<and> map_of kvs ''template_path'' \<noteq> None" for i j a
  proof -
    from that h have "map_of kvs ''template_path'' = Some (JStr path)"
      by auto
    moreover from that have "has_T a" "field_key a = ''template_path''"
      by (simp_all add: has_T_def field_key_def strip_delims_def)
    ultimately have "fill_annot (py_repr e) (map_of kvs) a =
        a\<lparr>annot_V := Some path, annot_AS := Some path\<rparr>"
      using that by (simp add: fill_annot_def)
    with that show ?thesis by (simp add: annot_at_fill_pdf)
  qed
  have 3: "annot_at (fill_pdf (py_repr e) (map_of kvs) template) i j =
          Some (a\<lparr>annot_V := Some (py_str (py_repr e) vm), annot_AS := Some (py_str (py_repr e) vm)\<rparr>)"
    if "annot_at template i j = Some a \<and> is_widget a \<and>
        annot_T a = Some ''(visibility_map)'' \<and> map_of kvs ''visibility_map'' = Some vm" for i j a vm
  proof -
    from that have "has_T a" "field_key a = ''visibility_map''"
      by (simp_all add: has_T_def field_key_def strip_delims_def)
    then have "fill_annot (py_repr e) (map_of kvs) a =
        a\<lparr>annot_V := Some (py_str (py_repr e) vm), annot_AS := Some (py_str (py_repr e) vm)\<rparr>"
      using that by (simp add: fill_annot_def)
    with that show ?thesis by (simp add: annot_at_fill_pdf)
  qed
  from 1 2 3 show "lambda_handler e request_body =
       (case set_button_visibility (case map_of kvs ''visibility_map'' of None \<Rightarrow> JNull | Some vm \<Rightarrow> vm)
               (set_fields_readonly None (fill_pdf (py_repr e) (map_of kvs) template)) of
          Inl err \<Rightarrow> Inl err
        | Inr out \<Rightarrow>
            Inr (\<lparr>statusCode = 200,
                  body = JObj [(''url'', JStr (presigned_url e (''output/'' @ uuid4 e @ ''.pdf'')))]\<rparr>,
                 ''output/'' @ uuid4 e @ ''.pdf'', out)) \<and>
     (\<forall>i j a. annot_at template i j = Some a \<and> is_widget a \<and>
              annot_T a = Some ''(template_path)'' \<and> map_of kvs ''template_path'' \<noteq> None \<longrightarrow>
        annot_at (fill_pdf (py_repr e) (map_of kvs) template) i j =
          Some (a\<lparr>annot_V := Some path, annot_AS := Some path\<rparr>)) \<and>
     (\<forall>i j a vm. annot_at template i j = Some a \<and> is_widget a \<and>
              annot_T a = Some ''(visibility_map)'' \<and> map_of kvs ''visibility_map'' = Some vm \<longrightarrow>
        annot_at (fill_pdf (py_repr e) (map_of kvs) template) i j =
          Some (a\<lparr>annot_V := Some (py_str (py_repr e) vm), annot_AS := Some (py_str (py_repr e) vm)\<rparr>))"
    by blast
qed

theorem handler_fills_reserved_keys_witness:
  "py_get (JObj ex_reserved_body) ''template_path'' (JStr TEMPLATE_KEY) = Inr (JStr ''forms/a.pdf'') \<and>
   s3_objects (ex_env ''forms/a.pdf'' ex_reserved_template) ''forms/a.pdf'' = Some ex_reserved_template \<and>
   annot_at ex_reserved_template 0 0 = Some (widget ''template_path'' None) \<and>
   annot_at ex_reserved_template 0 1 = Some (widget ''visibility_map'' None) \<and>
   annot_at (fill_pdf ex_repr (map_of ex_reserved_body) ex_reserved_template) 0 0 =
     Some ((widget ''template_path'' None)\<lparr>annot_V := Some ''forms/a.pdf'', annot_AS := Some ''forms/a.pdf''\<rparr>) \<and>
   annot_at (fill_pdf ex_repr (map_of ex_reserved_body) ex_reserved_template) 0 1 =
     Some ((widget ''visibility_map'' None)\<lparr>annot_V := Some ''<repr>'', annot_AS := Some ''<repr>''\<rparr>) \<and>
   lambda_handler (ex_env ''forms/a.pdf'' ex_reserved_template) (JObj ex_reserved_body) =
     Inr (\<lparr>statusCode = 200, body = JObj [(''url'', JStr ''https://s3.example/output/0000.pdf'')]\<rparr>,
          ''output/0000.pdf'',
          one_page (Some [(widget ''template_path'' (Some 1))
                            \<lparr>annot_V := Some ''forms/a.pdf'', annot_AS := Some ''forms/a.pdf''\<rparr>,
                          (widget ''visibility_map'' (Some 1))
                            \<lparr>annot_V := Some ''<repr>'', annot_AS := Some ''<repr>''\<rparr>]) None)"
proof -
  let ?e = "ex_env ''forms/a.pdf'' ex_reserved_template"
  have t: "py_get (JObj ex_reserved_body) ''template_path'' (JStr TEMPLATE_KEY) = Inr (JStr ''forms/a.pdf'')"
    by (simp add: ex_reserved_body_def)
  have o: "s3_objects ?e ''forms/a.pdf'' = Some ex_reserved_template"
    by (simp add: ex_env_def)
  have r: "py_repr ?e = ex_repr" "uuid4 ?e = ''0000''" "presigned_url ?e = ex_url"
    by (simp_all add: ex_env_def)
  have a0: "annot_at ex_reserved_template 0 0 = Some (widget ''template_path'' None)"
    and a1: "annot_at ex_reserved_template 0 1 = Some (widget ''visibility_map'' None)"
    by (simp_all add: ex_reserved_template_def one_page_def annot_at_def page_annots_def)
  have w: "is_widget (widget ''template_path'' None)" "is_widget (widget ''visibility_map'' None)"
    "annot_T (widget ''template_path'' None) = Some ''(template_path)''"
    "annot_T (widget ''visibility_map'' None) = Some ''(visibility_map)''"
    by (simp_all add: widget_def is_widget_def)
  have k: "map_of ex_reserved_body ''template_path'' \<noteq> None"
    "map_of ex_reserved_body ''visibility_map'' = Some (JObj [(''other'', JBool True)])"
    by (simp_all add: ex_reserved_body_def)
  note inst = handler_fills_reserved_keys
    [of "JObj ex_reserved_body" ex_reserved_body "''forms/a.pdf''" ?e ex_reserved_template]
  have f0: "annot_at (fill_pdf ex_repr (map_of ex_reserved_body) ex_reserved_template) 0 0 =
     Some ((widget ''template_path'' None)\<lparr>annot_V := Some ''forms/a.pdf'', annot_AS := Some ''forms/a.pdf''\<rparr>)"
    using inst t o a0 w k r by simp
  have f1: "annot_at (fill_pdf ex_repr (map_of ex_reserved_body) ex_reserved_template) 0 1 =
     Some ((widget ''visibility_map'' None)\<lparr>annot_V := Some ''<repr>'', annot_AS := Some ''<repr>''\<rparr>)"
    using inst t o a1 w k r by (simp add: ex_repr_def)
  have v: "set_button_visibility (JObj [(''other'', JBool True)])
      (set_fields_readonly None (fill_pdf ex_repr (map_of ex_reserved_body) ex_reserved_template)) =
      Inr (one_page (Some [(widget ''template_path'' (Some 1))
                            \<lparr>annot_V := Some ''forms/a.pdf'', annot_AS := Some ''forms/a.pdf''\<rparr>,
                          (widget ''visibility_map'' (Some 1))
                            \<lparr>annot_V := Some ''<repr>'', annot_AS := Some ''<repr>''\<rparr>]) None)"
    by (simp add: ex_reserved_template_def ex_reserved_body_def ex_repr_def eval_defs)
  have l: "lambda_handler ?e (JObj ex_reserved_body) =
     Inr (\<lparr>statusCode = 200, body = JObj [(''url'', JStr ''https://s3.example/output/0000.pdf'')]\<rparr>,
          ''output/0000.pdf'',
          one_page (Some [(widget ''template_path'' (Some 1))
                            \<lparr>annot_V := Some ''forms/a.pdf'', annot_AS := Some ''forms/a.pdf''\<rparr>,
                          (widget ''visibility_map'' (Some 1))
                            \<lparr>annot_V := Some ''<repr>'', annot_AS := Some ''<repr>''\<rparr>]) None)"
    using inst t o k r v by (simp add: ex_url_def)
  from t o a0 a1 f0 f1 l show ?thesis by blast
qed

end
